theory Spec2Isabelle
  imports Complex_Main
begin

section \<open>Numbers as the metric code sees them\<close>

text \<open>
  The metric functions of \<^verbatim>\<open>app.py\<close> compute on float64 columns. Rounding is not
  modelled: a finite value is a real number. The three special values that decide the
  behaviour of the code are kept: a first difference starts with NaN, a division by a
  zero time step gives an infinity, and a dispersion over too few values is NaN.
  Signed zeros are not distinguished (a zero divisor is taken as +0).
\<close>

datatype fl = Fin real | PInf | NInf | NaN

fun fl_neg :: "fl \<Rightarrow> fl" where
  "fl_neg (Fin x) = Fin (- x)"
| "fl_neg PInf = NInf"
| "fl_neg NInf = PInf"
| "fl_neg NaN = NaN"

fun fl_add :: "fl \<Rightarrow> fl \<Rightarrow> fl" where
  "fl_add NaN b = NaN"
| "fl_add a NaN = NaN"
| "fl_add (Fin x) (Fin y) = Fin (x + y)"
| "fl_add PInf NInf = NaN"
| "fl_add NInf PInf = NaN"
| "fl_add PInf b = PInf"
| "fl_add a PInf = PInf"
| "fl_add NInf b = NInf"
| "fl_add a NInf = NInf"

definition fl_sub :: "fl \<Rightarrow> fl \<Rightarrow> fl" where
  "fl_sub a b = fl_add a (fl_neg b)"

fun fl_mul :: "fl \<Rightarrow> fl \<Rightarrow> fl" where
  "fl_mul NaN b = NaN"
| "fl_mul a NaN = NaN"
| "fl_mul (Fin x) (Fin y) = Fin (x * y)"
| "fl_mul (Fin x) PInf = (if x = 0 then NaN else if 0 < x then PInf else NInf)"
| "fl_mul (Fin x) NInf = (if x = 0 then NaN else if 0 < x then NInf else PInf)"
| "fl_mul PInf (Fin y) = (if y = 0 then NaN else if 0 < y then PInf else NInf)"
| "fl_mul NInf (Fin y) = (if y = 0 then NaN else if 0 < y then NInf else PInf)"
| "fl_mul PInf PInf = PInf"
| "fl_mul NInf NInf = PInf"
| "fl_mul PInf NInf = NInf"
| "fl_mul NInf PInf = NInf"

fun fl_div :: "fl \<Rightarrow> fl \<Rightarrow> fl" where
  "fl_div NaN b = NaN"
| "fl_div a NaN = NaN"
| "fl_div (Fin x) (Fin y) =
     (if y \<noteq> 0 then Fin (x / y)
      else if x = 0 then NaN else if 0 < x then PInf else NInf)"
| "fl_div (Fin x) PInf = Fin 0"
| "fl_div (Fin x) NInf = Fin 0"
| "fl_div PInf (Fin y) = (if 0 \<le> y then PInf else NInf)"
| "fl_div NInf (Fin y) = (if 0 \<le> y then NInf else PInf)"
| "fl_div PInf b = NaN"
| "fl_div NInf b = NaN"

fun fl_abs :: "fl \<Rightarrow> fl" where
  "fl_abs (Fin x) = Fin \<bar>x\<bar>"
| "fl_abs PInf = PInf"
| "fl_abs NInf = PInf"
| "fl_abs NaN = NaN"

fun fl_sqrt :: "fl \<Rightarrow> fl" where
  "fl_sqrt (Fin x) = (if x < 0 then NaN else Fin (sqrt x))"
| "fl_sqrt PInf = PInf"
| "fl_sqrt NInf = NaN"
| "fl_sqrt NaN = NaN"

text \<open>Comparisons: every ordered comparison with NaN is false, and NaN differs from
  everything, itself included.\<close>

fun fl_lt :: "fl \<Rightarrow> fl \<Rightarrow> bool" where
  "fl_lt NaN b = False"
| "fl_lt a NaN = False"
| "fl_lt (Fin x) (Fin y) = (x < y)"
| "fl_lt a NInf = False"
| "fl_lt PInf b = False"
| "fl_lt NInf b = True"
| "fl_lt a PInf = True"

definition fl_gt :: "fl \<Rightarrow> fl \<Rightarrow> bool" where
  "fl_gt a b = fl_lt b a"

fun fl_ne :: "fl \<Rightarrow> fl \<Rightarrow> bool" where
  "fl_ne NaN b = True"
| "fl_ne a NaN = True"
| "fl_ne a b = (a \<noteq> b)"

fun is_nan :: "fl \<Rightarrow> bool" where
  "is_nan NaN = True"
| "is_nan a = False"


section \<open>Series operations used by the metrics\<close>

text \<open>\<^verbatim>\<open>Series.diff()\<close>: the first entry is NaN, every later entry is the value minus
  its predecessor.\<close>

fun diff_from :: "fl \<Rightarrow> fl list \<Rightarrow> fl list" where
  "diff_from p [] = []"
| "diff_from p (x # xs) = fl_sub x p # diff_from x xs"

fun diff :: "fl list \<Rightarrow> fl list" where
  "diff [] = []"
| "diff (x # xs) = NaN # diff_from x xs"

text \<open>Boolean indexing \<^verbatim>\<open>s[mask]\<close>: the entries whose mask entry is true.\<close>

fun select :: "'a list \<Rightarrow> bool list \<Rightarrow> 'a list" where
  "select (x # xs) (m # ms) = (if m then x # select xs ms else select xs ms)"
| "select xs ms = []"

text \<open>\<^verbatim>\<open>mask.any()\<close> and \<^verbatim>\<open>mask.sum()\<close>.\<close>

definition any :: "bool list \<Rightarrow> bool" where
  "any ms = list_ex (\<lambda>m. m) ms"

definition count_true :: "bool list \<Rightarrow> nat" where
  "count_true ms = length (filter (\<lambda>m. m) ms)"

text \<open>Reductions skip NaN entries (\<^verbatim>\<open>skipna=True\<close>, the default).\<close>

definition dropna :: "fl list \<Rightarrow> fl list" where
  "dropna xs = filter (\<lambda>x. \<not> is_nan x) xs"

definition fl_sum :: "fl list \<Rightarrow> fl" where
  "fl_sum xs = foldl fl_add (Fin 0) xs"

text \<open>\<^verbatim>\<open>Series.mean()\<close>: NaN when no value is left after dropping NaN.\<close>

definition nanmean :: "fl list \<Rightarrow> fl" where
  "nanmean xs =
     (let ys = dropna xs
      in if ys = [] then NaN else fl_div (fl_sum ys) (Fin (real (length ys))))"

text \<open>\<^verbatim>\<open>Series.std()\<close>: one delta degree of freedom; NaN when at most one value is
  left after dropping NaN.\<close>

definition nanstd :: "fl list \<Rightarrow> fl" where
  "nanstd xs =
     (let ys = dropna xs; n = length ys
      in if n \<le> 1 then NaN
         else let avg = fl_div (fl_sum ys) (Fin (real n));
                  sqr = map (\<lambda>v. fl_mul (fl_sub avg v) (fl_sub avg v)) ys
              in fl_sqrt (fl_div (fl_sum sqr) (Fin (real (n - 1)))))"

section \<open>Telemetry\<close>

text \<open>One reading per sampling instant. \<open>Time\<close> is the elapsed time in seconds (a
  timedelta in the source), \<open>Brake\<close> a boolean and \<open>nGear\<close> an integer column.\<close>

record reading =
  Time :: real
  Speed :: real
  Throttle :: real
  Brake :: bool
  nGear :: int

text \<open>A telemetry frame: the names of the columns it carries and its rows.\<close>

record telemetry =
  columns :: "string set"
  rows :: "reading list"

definition empty_frame :: "telemetry \<Rightarrow> bool" where
  "empty_frame t = (rows t = [] \<or> columns t = {})"

datatype exn = KeyError | IndexError | TypeError | AttributeError | ProviderError

text \<open>
  A computation on the telemetry object passed to a metric function: it returns a value
  or raises, and hands back the telemetry object as it is afterwards.
\<close>

type_synonym 'a run = "telemetry \<Rightarrow> (exn + 'a) \<times> telemetry"

definition ret :: "'a \<Rightarrow> 'a run" where
  "ret v t = (Inr v, t)"

definition lift :: "exn + 'a \<Rightarrow> 'a run" where
  "lift r t = (r, t)"

definition bind_run :: "'a run \<Rightarrow> ('a \<Rightarrow> 'b run) \<Rightarrow> 'b run" where
  "bind_run m f t =
     (case m t of (Inl e, t') \<Rightarrow> (Inl e, t') | (Inr v, t') \<Rightarrow> f v t')"

text \<open>\<^verbatim>\<open>try: ... except: return 0.0\<close> around a whole function body.\<close>

definition try_except :: "fl run \<Rightarrow> fl \<Rightarrow> telemetry \<Rightarrow> fl \<times> telemetry" where
  "try_except m d t =
     (case m t of (Inl e, t') \<Rightarrow> (d, t') | (Inr v, t') \<Rightarrow> (v, t'))"

text \<open>\<^verbatim>\<open>telemetry[name]\<close>: the column, or KeyError when the frame has none of that
  name. The frame is read, not written.\<close>

definition getitem :: "string \<Rightarrow> (reading \<Rightarrow> 'a) \<Rightarrow> 'a list run" where
  "getitem name sel t =
     (if name \<in> columns t then Inr (map sel (rows t)) else Inl KeyError, t)"

text \<open>\<^verbatim>\<open>telemetry.loc[mask, name]\<close>: the column restricted to the rows of the mask.\<close>

definition loc :: "bool list \<Rightarrow> string \<Rightarrow> (reading \<Rightarrow> 'a) \<Rightarrow> 'a list run" where
  "loc msk name sel t =
     (if name \<in> columns t then Inr (select (map sel (rows t)) msk) else Inl KeyError, t)"

text \<open>\<^verbatim>\<open>s.iloc[i]\<close> with Python's negative indices; out of range raises IndexError.\<close>

definition iloc :: "'a list \<Rightarrow> int \<Rightarrow> exn + 'a" where
  "iloc xs i =
     (if 0 \<le> i \<and> i < int (length xs) then Inr (xs ! nat i)
      else if i < 0 \<and> - int (length xs) \<le> i then Inr (xs ! nat (int (length xs) + i))
      else Inl IndexError)"

section \<open>The four metrics\<close>

definition floats :: "real list \<Rightarrow> fl list" where
  "floats xs = map Fin xs"

definition braking_body :: "fl run" where
  "braking_body =
     bind_run (getitem ''Brake'' Brake) (\<lambda>brake.
     bind_run (getitem ''Speed'' Speed) (\<lambda>speed.
       let braking_mask =
             map2 (\<lambda>b s. b \<and> s)
               (map (\<lambda>b. (0::int) < (if b then 1 else 0)) brake)
               (map (\<lambda>d. fl_lt d (Fin 0)) (diff (floats speed)))
       in if \<not> any braking_mask then ret (Fin 0)
          else
            bind_run (getitem ''Speed'' Speed) (\<lambda>speed'.
            bind_run (getitem ''Time'' Time) (\<lambda>time.
              let speed_ms = map (\<lambda>v. fl_div v (Fin 3.6)) (floats speed');
                  acceleration = map2 fl_div (diff speed_ms) (diff (floats time));
                  braking_decel = map fl_neg (select acceleration braking_mask);
                  braking_g_force = map (\<lambda>v. fl_div v (Fin 9.81)) braking_decel
              in ret (nanmean braking_g_force)))))"

definition run_braking_aggressiveness :: "telemetry \<Rightarrow> fl \<times> telemetry" where
  "run_braking_aggressiveness = try_except braking_body (Fin 0)"

definition calculate_braking_aggressiveness :: "telemetry \<Rightarrow> fl" where
  "calculate_braking_aggressiveness t = fst (run_braking_aggressiveness t)"

definition throttle_body :: "fl run" where
  "throttle_body =
     bind_run (getitem ''Throttle'' Throttle) (\<lambda>throttle.
       let throttle_changes = map fl_abs (diff (floats throttle))
       in ret (nanstd throttle_changes))"

definition run_throttle_smoothness :: "telemetry \<Rightarrow> fl \<times> telemetry" where
  "run_throttle_smoothness = try_except throttle_body (Fin 0)"

definition calculate_throttle_smoothness :: "telemetry \<Rightarrow> fl" where
  "calculate_throttle_smoothness t = fst (run_throttle_smoothness t)"

definition cornering_body :: "fl run" where
  "cornering_body =
     bind_run (getitem ''Throttle'' Throttle) (\<lambda>throttle.
     bind_run (getitem ''Speed'' Speed) (\<lambda>speed.
       let corner_mask =
             map2 (\<lambda>a b. a \<and> b)
               (map (\<lambda>v. fl_lt v (Fin 50)) (floats throttle))
               (map (\<lambda>d. fl_gt (fl_abs d) (Fin 1)) (diff (floats speed)))
       in if \<not> any corner_mask then ret (Fin 0)
          else
            bind_run (loc corner_mask ''Speed'' Speed) (\<lambda>corner_speeds.
              ret (nanstd (floats corner_speeds)))))"

definition run_cornering_consistency :: "telemetry \<Rightarrow> fl \<times> telemetry" where
  "run_cornering_consistency = try_except cornering_body (Fin 0)"

definition calculate_cornering_consistency :: "telemetry \<Rightarrow> fl" where
  "calculate_cornering_consistency t = fst (run_cornering_consistency t)"

definition gear_body :: "fl run" where
  "gear_body =
     bind_run (getitem ''nGear'' nGear) (\<lambda>gear.
       let gear_changes =
             count_true (map (\<lambda>d. fl_ne d (Fin 0)) (diff (floats (map real_of_int gear))))
       in
         bind_run (getitem ''Time'' Time) (\<lambda>time.
         bind_run (lift (iloc time (- 1))) (\<lambda>last_time.
         bind_run (getitem ''Time'' Time) (\<lambda>time'.
         bind_run (lift (iloc time' 0)) (\<lambda>first_time.
           let total_time_minutes = (last_time - first_time) / 60
           in if 0 < total_time_minutes
              then ret (Fin (real gear_changes / total_time_minutes))
              else ret (Fin 0))))))"

definition run_gear_shift_frequency :: "telemetry \<Rightarrow> fl \<times> telemetry" where
  "run_gear_shift_frequency = try_except gear_body (Fin 0)"

definition calculate_gear_shift_frequency :: "telemetry \<Rightarrow> fl" where
  "calculate_gear_shift_frequency t = fst (run_gear_shift_frequency t)"

section \<open>Profiling one driver\<close>

text \<open>
  The telemetry provider (FastF1) is outside the repository. What its calls give back
  for one session is taken as data: \<open>pick_driver\<close> is the outcome of
  \<^verbatim>\<open>session.laps.pick_driver(code)\<close>, \<open>pick_fastest\<close> of \<^verbatim>\<open>driver.pick_fastest()\<close>
  (the provider gives a lap record, possibly an empty one, or Python's None), and
  \<open>get_telemetry\<close> of \<^verbatim>\<open>fastest_lap.get_telemetry()\<close>. Each of them may raise.
\<close>

record lap =
  lap_empty :: bool
  LapTime :: "real option"
  get_telemetry :: "exn + telemetry"

record laps =
  laps_empty :: bool
  pick_fastest :: "exn + lap option"

type_synonym session = "string \<Rightarrow> exn + laps"

text \<open>What \<^verbatim>\<open>get_driver_telemetry\<close> returns: the bare value None, or a pair. The pair
  of the exception handler is \<open>(None, None)\<close>.\<close>

datatype telemetry_result = ReturnNone | ReturnPair "telemetry option" "lap option"

definition get_driver_telemetry_body :: "session \<Rightarrow> string \<Rightarrow> exn + telemetry_result" where
  "get_driver_telemetry_body session driver_code =
     (case session driver_code of
        Inl e \<Rightarrow> Inl e
      | Inr driver \<Rightarrow>
          if laps_empty driver then Inr ReturnNone
          else
            (case pick_fastest driver of
               Inl e \<Rightarrow> Inl e
             | Inr None \<Rightarrow> Inl AttributeError
             | Inr (Some fastest_lap) \<Rightarrow>
                 if lap_empty fastest_lap then Inr ReturnNone
                 else
                   (case get_telemetry fastest_lap of
                      Inl e \<Rightarrow> Inl e
                    | Inr tel \<Rightarrow> Inr (ReturnPair (Some tel) (Some fastest_lap)))))"

definition get_driver_telemetry :: "session \<Rightarrow> string \<Rightarrow> telemetry_result" where
  "get_driver_telemetry session driver_code =
     (case get_driver_telemetry_body session driver_code of
        Inl e \<Rightarrow> ReturnPair None None
      | Inr r \<Rightarrow> r)"

record profile =
  braking_aggressiveness :: fl
  throttle_smoothness :: fl
  cornering_consistency :: fl
  gear_shift_frequency :: fl

text \<open>\<^verbatim>\<open>analyze_driver_style\<close> has no handler of its own: unpacking the bare None
  into two names raises TypeError, which leaves the function.\<close>

definition analyze_driver_style :: "session \<Rightarrow> string \<Rightarrow> exn + (profile \<times> lap option) option" where
  "analyze_driver_style session driver_code =
     (case get_driver_telemetry session driver_code of
        ReturnNone \<Rightarrow> Inl TypeError
      | ReturnPair None l \<Rightarrow> Inr None
      | ReturnPair (Some tel) l \<Rightarrow>
          if empty_frame tel then Inr None
          else Inr (Some
            (\<lparr>braking_aggressiveness = calculate_braking_aggressiveness tel,
              throttle_smoothness = calculate_throttle_smoothness tel,
              cornering_consistency = calculate_cornering_consistency tel,
              gear_shift_frequency = calculate_gear_shift_frequency tel\<rparr>, l)))"

section \<open>Comparing two drivers\<close>





section \<open>Sample inputs\<close>

definition all_columns :: "string set" where
  "all_columns = {''Time'', ''Speed'', ''Throttle'', ''Brake'', ''nGear''}"

text \<open>The five-reading lap of the specification's scenario.\<close>

definition lap5 :: telemetry where
  "lap5 = \<lparr>columns = all_columns, rows =
     [\<lparr>Time = 0, Speed = 100, Throttle = 0, Brake = True, nGear = 3\<rparr>,
      \<lparr>Time = 0.2, Speed = 95, Throttle = 0, Brake = True, nGear = 3\<rparr>,
      \<lparr>Time = 0.4, Speed = 90, Throttle = 0, Brake = True, nGear = 3\<rparr>,
      \<lparr>Time = 0.6, Speed = 92, Throttle = 50, Brake = False, nGear = 4\<rparr>,
      \<lparr>Time = 0.8, Speed = 92, Throttle = 80, Brake = False, nGear = 4\<rparr>]\<rparr>"

text \<open>A lap of a single reading.\<close>

definition one_reading :: telemetry where
  "one_reading = \<lparr>columns = all_columns, rows =
     [\<lparr>Time = 0, Speed = 100, Throttle = 20, Brake = False, nGear = 3\<rparr>]\<rparr>"

text \<open>Two readings one minute apart, in third gear throughout.\<close>

definition two_readings :: telemetry where
  "two_readings = \<lparr>columns = all_columns, rows =
     [\<lparr>Time = 0, Speed = 100, Throttle = 20, Brake = False, nGear = 3\<rparr>,
      \<lparr>Time = 60, Speed = 100, Throttle = 70, Brake = False, nGear = 3\<rparr>]\<rparr>"

text \<open>Two readings under braking that carry the same timestamp.\<close>

definition stalled_clock :: telemetry where
  "stalled_clock = \<lparr>columns = all_columns, rows =
     [\<lparr>Time = 0, Speed = 100, Throttle = 0, Brake = True, nGear = 3\<rparr>,
      \<lparr>Time = 0, Speed = 90, Throttle = 0, Brake = True, nGear = 3\<rparr>]\<rparr>"

text \<open>A session in which VER has laps, and the fastest-lap record the provider hands
  back is empty.\<close>

definition empty_lap :: lap where
  "empty_lap = \<lparr>lap_empty = True, LapTime = None, get_telemetry = Inl ProviderError\<rparr>"

definition no_telemetry_session :: session where
  "no_telemetry_session code =
     (if code = ''VER''
      then Inr \<lparr>laps_empty = False, pick_fastest = Inr (Some empty_lap)\<rparr>
      else Inr \<lparr>laps_empty = True, pick_fastest = Inr None\<rparr>)"







section \<open>The specification's wording of the throttle metric\<close>

text \<open>The absolute first differences of consecutive values, and the sample standard
  deviation with Bessel's correction, as the specification words them.\<close>

fun abs_diffs :: "real list \<Rightarrow> real list" where
  "abs_diffs (x # y # ys) = \<bar>y - x\<bar> # abs_diffs (y # ys)"
| "abs_diffs xs = []"

definition sample_std :: "real list \<Rightarrow> real" where
  "sample_std ds =
     (let n = length ds; m = sum_list ds / real n
      in sqrt (sum_list (map (\<lambda>d. (d - m)\<^sup>2) ds) / real (n - 1)))"


section \<open>Facts about the building blocks\<close>

lemmas run_defs = ret_def lift_def bind_run_def try_except_def getitem_def loc_def iloc_def

lemmas series_defs = floats_def any_def count_true_def dropna_def fl_sum_def nanmean_def
  nanstd_def fl_sub_def fl_gt_def





lemma short_list: "length xs < 2 \<Longrightarrow> xs = [] \<or> (\<exists>r. xs = [r])"
  by (cases xs) (auto simp: less_Suc_eq)

lemma foldl_fl_add_Fin: "foldl fl_add (Fin a) (map Fin xs) = Fin (a + sum_list xs)"
  by (induction xs arbitrary: a) (simp_all add: add.assoc)

lemma fl_sum_Fin: "fl_sum (map Fin xs) = Fin (sum_list xs)"
  by (simp add: fl_sum_def foldl_fl_add_Fin)

lemma dropna_Fin: "dropna (map Fin xs) = map Fin xs"
  by (induction xs) (simp_all add: dropna_def)

lemma nanstd_NaN_Cons: "nanstd (NaN # xs) = nanstd xs"
  by (simp add: nanstd_def dropna_def)

lemma nanstd_short: "length xs < 2 \<Longrightarrow> nanstd (map Fin xs) = NaN"
  by (auto dest!: short_list simp: nanstd_def dropna_def)

text \<open>On two or more finite values the series reduction is the sample standard
  deviation of the specification.\<close>

lemma nanstd_Fin:
  assumes "2 \<le> length ds"
  shows "nanstd (map Fin ds) = Fin (sample_std ds)"
proof -
  define n where "n = length ds"
  define m where "m = sum_list ds / real n"
  define sq where "sq = map (\<lambda>d. (d - m)\<^sup>2) ds"
  have sqr: "map (\<lambda>v. fl_mul (fl_sub (Fin m) v) (fl_sub (Fin m) v)) (map Fin ds) = map Fin sq"
    by (simp add: sq_def fl_sub_def power2_eq_square algebra_simps)
  have nn: "0 \<le> sum_list sq / real (n - 1)"
    unfolding sq_def by (intro divide_nonneg_nonneg sum_list_nonneg) auto
  have n0: "real n \<noteq> 0" and n1: "real (n - 1) \<noteq> 0" and n2: "\<not> n \<le> 1"
    using assms by (auto simp: n_def)
  have avg: "fl_div (fl_sum (map Fin ds)) (Fin (real n)) = Fin m"
    using n0 by (simp add: fl_sum_Fin m_def)
  have var: "fl_div (fl_sum (map Fin sq)) (Fin (real (n - 1))) = Fin (sum_list sq / real (n - 1))"
    using n1 by (simp add: fl_sum_Fin)
  have "nanstd (map Fin ds) = fl_sqrt (fl_div (fl_sum (map Fin sq)) (Fin (real (n - 1))))"
    using n2 by (simp add: nanstd_def dropna_Fin Let_def n_def [symmetric] avg sqr del: map_map)
  also have "\<dots> = Fin (sqrt (sum_list sq / real (n - 1)))"
    unfolding var using nn by simp
  also have "\<dots> = Fin (sample_std ds)"
    by (simp add: sample_std_def Let_def n_def m_def sq_def)
  finally show ?thesis .
qed

lemma diff_from_floats:
  "map fl_abs (diff_from (Fin p) (map Fin xs)) = map Fin (abs_diffs (p # xs))"
  by (induction xs arbitrary: p) (simp_all add: fl_sub_def)

lemma abs_diff_floats:
  "map fl_abs (diff (floats xs)) = (if xs = [] then [] else NaN # map Fin (abs_diffs xs))"
  by (cases xs) (simp_all add: floats_def diff_from_floats)

lemma diff_from_constant:
  "\<forall>x\<in>set gs. x = g \<Longrightarrow>
   count_true (map (\<lambda>d. fl_ne d (Fin 0))
     (diff_from (Fin (real_of_int g)) (map Fin (map real_of_int gs)))) = 0"
  by (induction gs) (simp_all add: count_true_def fl_sub_def)

text \<open>The comparison \<^verbatim>\<open>diff() != 0\<close> is true at the first row, whose difference is NaN:
  a column of one constant gear counts one change.\<close>

lemma diff_constant:
  assumes "gs \<noteq> []" "\<forall>x\<in>set gs. x = g"
  shows "count_true (map (\<lambda>d. fl_ne d (Fin 0)) (diff (floats (map real_of_int gs)))) = 1"
proof -
  obtain ys where gs: "gs = g # ys" and ys: "\<forall>x\<in>set ys. x = g"
    using assms by (cases gs) auto
  have "count_true (map (\<lambda>d. fl_ne d (Fin 0))
          (diff_from (Fin (real_of_int g)) (map Fin (map real_of_int ys)))) = 0"
    using ys by (rule diff_from_constant)
  then show ?thesis
    by (simp add: gs floats_def count_true_def)
qed

lemma iloc_last: "xs \<noteq> [] \<Longrightarrow> iloc xs (- 1) = Inr (last xs)"
  by (cases xs rule: rev_cases) (simp_all add: iloc_def nth_append)

lemma iloc_first: "xs \<noteq> [] \<Longrightarrow> iloc xs 0 = Inr (hd xs)"
  by (cases xs) (simp_all add: iloc_def)

section \<open>Degenerate inputs of the metrics\<close>

lemma braking_short: "length (rows t) < 2 \<Longrightarrow> calculate_braking_aggressiveness t = Fin 0"
  by (auto dest!: short_list simp add: calculate_braking_aggressiveness_def
      run_braking_aggressiveness_def braking_body_def run_defs series_defs)

lemma cornering_short: "length (rows t) < 2 \<Longrightarrow> calculate_cornering_consistency t = Fin 0"
  by (auto dest!: short_list simp add: calculate_cornering_consistency_def
      run_cornering_consistency_def cornering_body_def run_defs series_defs)

lemma gear_short: "length (rows t) < 2 \<Longrightarrow> calculate_gear_shift_frequency t = Fin 0"
  by (auto dest!: short_list simp add: calculate_gear_shift_frequency_def
      run_gear_shift_frequency_def gear_body_def run_defs series_defs)

lemma throttle_short:
  "length (rows t) < 2 \<Longrightarrow> ''Throttle'' \<in> columns t \<Longrightarrow> calculate_throttle_smoothness t = NaN"
  by (auto dest!: short_list simp add: calculate_throttle_smoothness_def
      run_throttle_smoothness_def throttle_body_def run_defs series_defs)

text \<open>A missing column raises KeyError inside the handler: the result is 0.0.\<close>

lemma braking_missing:
  "''Brake'' \<notin> columns t \<or> ''Speed'' \<notin> columns t \<or> ''Time'' \<notin> columns t
   \<Longrightarrow> calculate_braking_aggressiveness t = Fin 0"
  by (auto simp add: calculate_braking_aggressiveness_def run_braking_aggressiveness_def
      braking_body_def run_defs Let_def)

lemma throttle_missing:
  "''Throttle'' \<notin> columns t \<Longrightarrow> calculate_throttle_smoothness t = Fin 0"
  by (simp add: calculate_throttle_smoothness_def run_throttle_smoothness_def
      throttle_body_def run_defs)

lemma cornering_missing:
  "''Throttle'' \<notin> columns t \<or> ''Speed'' \<notin> columns t
   \<Longrightarrow> calculate_cornering_consistency t = Fin 0"
  by (auto simp add: calculate_cornering_consistency_def run_cornering_consistency_def
      cornering_body_def run_defs)

lemma gear_missing:
  "''nGear'' \<notin> columns t \<or> ''Time'' \<notin> columns t
   \<Longrightarrow> calculate_gear_shift_frequency t = Fin 0"
  by (auto simp add: calculate_gear_shift_frequency_def run_gear_shift_frequency_def
      gear_body_def run_defs Let_def)

text \<open>The throttle metric on any frame that has the column: NaN below two differences,
  the sample standard deviation of the absolute differences from two on.\<close>

lemma throttle_smoothness_value:
  assumes "''Throttle'' \<in> columns t"
  shows "calculate_throttle_smoothness t =
     (let ds = abs_diffs (map Throttle (rows t))
      in if length ds < 2 then NaN else Fin (sample_std ds))"
proof -
  have "calculate_throttle_smoothness t =
        nanstd (map fl_abs (diff (floats (map Throttle (rows t)))))"
    using assms by (simp add: calculate_throttle_smoothness_def run_throttle_smoothness_def
        throttle_body_def run_defs)
  also have "\<dots> = nanstd (map Fin (abs_diffs (map Throttle (rows t))))"
    by (cases "rows t") (simp_all add: abs_diff_floats nanstd_NaN_Cons nanstd_def dropna_def)
  also have "\<dots> = (let ds = abs_diffs (map Throttle (rows t))
      in if length ds < 2 then NaN else Fin (sample_std ds))"
    by (simp add: Let_def nanstd_short nanstd_Fin)
  finally show ?thesis .
qed

text \<open>The gear metric on any frame of one constant gear and positive elapsed time: one
  counted change per elapsed minute, not zero.\<close>

lemma gear_constant_value:
  assumes ne: "rows t \<noteq> []"
    and const: "\<forall>r\<in>set (rows t). nGear r = g"
    and cols: "''nGear'' \<in> columns t" "''Time'' \<in> columns t"
    and pos: "Time (hd (rows t)) < Time (last (rows t))"
  shows "calculate_gear_shift_frequency t =
         Fin (1 / ((Time (last (rows t)) - Time (hd (rows t))) / 60))"
proof -
  have cnt: "count_true (map (\<lambda>d. fl_ne d (Fin 0))
               (diff (floats (map real_of_int (map nGear (rows t)))))) = 1"
    using ne const by (intro diff_constant) auto
  have l: "iloc (map Time (rows t)) (- 1) = Inr (Time (last (rows t)))"
    using ne by (simp add: iloc_last last_map)
  have f: "iloc (map Time (rows t)) 0 = Inr (Time (hd (rows t)))"
    using ne by (simp add: iloc_first hd_map)
  show ?thesis
    using cols pos
    by (simp add: calculate_gear_shift_frequency_def run_gear_shift_frequency_def gear_body_def
        ret_def lift_def bind_run_def try_except_def getitem_def cnt l f del: map_map)
qed

lemma lap5_gear: "calculate_gear_shift_frequency lap5 = Fin 150"
  by (simp add: calculate_gear_shift_frequency_def run_gear_shift_frequency_def gear_body_def
      lap5_def all_columns_def run_defs series_defs)

section \<open>Outcomes of profiling\<close>

lemma analyze_empty_fastest:
  "session d = Inr ls \<Longrightarrow> \<not> laps_empty ls \<Longrightarrow> pick_fastest ls = Inr (Some l) \<Longrightarrow> lap_empty l
   \<Longrightarrow> analyze_driver_style session d = Inl TypeError"
  by (simp add: analyze_driver_style_def get_driver_telemetry_def get_driver_telemetry_body_def)

lemma analyze_no_laps:
  "session d = Inr ls \<Longrightarrow> laps_empty ls \<Longrightarrow> analyze_driver_style session d = Inl TypeError"
  by (simp add: analyze_driver_style_def get_driver_telemetry_def get_driver_telemetry_body_def)

lemma analyze_empty_telemetry:
  "session d = Inr ls \<Longrightarrow> \<not> laps_empty ls \<Longrightarrow> pick_fastest ls = Inr (Some l) \<Longrightarrow> \<not> lap_empty l
   \<Longrightarrow> get_telemetry l = Inr tel \<Longrightarrow> empty_frame tel
   \<Longrightarrow> analyze_driver_style session d = Inr None"
  by (simp add: analyze_driver_style_def get_driver_telemetry_def get_driver_telemetry_body_def)

lemma analyze_provider_fault:
  "get_driver_telemetry_body session d = Inl e \<Longrightarrow> analyze_driver_style session d = Inr None"
  by (simp add: analyze_driver_style_def get_driver_telemetry_def)



lemma sqrt_half_25: "sqrt (25 / 2) \<noteq> (5::real)"
proof
  assume "sqrt (25 / 2) = (5::real)"
  then have "(sqrt (25 / 2))\<^sup>2 = (5::real)\<^sup>2"
    by simp
  then show False
    by simp
qed

section \<open>The claims\<close>

text \<open>
  Claim C1: on fewer than two readings each of the four metric functions returns 0.0.
  Three of them do, on every such frame (\<open>braking_short\<close>, \<open>cornering_short\<close>,
  \<open>gear_short\<close>). The throttle metric does not: the only difference of a single reading
  is NaN, the standard deviation of no value is NaN, no exception is raised, and the
  handler that would return 0.0 is never entered.
\<close>

theorem single_reading_metrics:
  "calculate_braking_aggressiveness one_reading = Fin 0 \<and>
   calculate_throttle_smoothness one_reading = NaN \<and>
   calculate_cornering_consistency one_reading = Fin 0 \<and>
   calculate_gear_shift_frequency one_reading = Fin 0"
  by (simp add: braking_short cornering_short gear_short throttle_short
      one_reading_def all_columns_def)

text \<open>
  Claim C2: a lap driven in one gear has gear-shift frequency 0.0, whatever the elapsed
  time. The code counts the NaN first difference as a change, so two readings in third
  gear one minute apart give one shift per minute (\<open>gear_constant_value\<close> is the general
  statement).
\<close>

theorem constant_gear_one_shift:
  "list_all (\<lambda>r. nGear r = 3) (rows two_readings) \<and>
   calculate_gear_shift_frequency two_readings = Fin 1"
  by (simp add: calculate_gear_shift_frequency_def run_gear_shift_frequency_def gear_body_def
      two_readings_def all_columns_def run_defs series_defs)

text \<open>
  Claim C3: a driver with laps whose fastest lap carries no telemetry is reported as not
  found (None), without a crash. When the fastest-lap record is empty,
  \<^verbatim>\<open>get_driver_telemetry\<close> returns a bare None, and \<^verbatim>\<open>analyze_driver_style\<close> raises
  TypeError while unpacking it. (An empty telemetry frame, and a fault of the provider,
  do give None: \<open>analyze_empty_telemetry\<close>, \<open>analyze_provider_fault\<close>.)
\<close>

theorem empty_fastest_lap_raises:
  "get_driver_telemetry no_telemetry_session ''VER'' = ReturnNone \<and>
   analyze_driver_style no_telemetry_session ''VER'' = Inl TypeError"
  by (simp add: analyze_driver_style_def get_driver_telemetry_def
      get_driver_telemetry_body_def no_telemetry_session_def empty_lap_def)

text \<open>
  Claim C4, as the code has it: on the five-reading lap the braking metric is the mean
  over the two braking instants (the second and third reading, that is the first two
  differences) and is positive, and the cornering metric is the standard deviation of
  the speeds 95 and 90: the first reading has no difference and is outside the mask.
\<close>

theorem lap5_scenario:
  "calculate_braking_aggressiveness lap5 =
     nanmean [Fin ((100 - 95) / 3.6 / (0.2 - 0) / 9.81), Fin ((95 - 90) / 3.6 / (0.4 - 0.2) / 9.81)] \<and>
   fl_gt (calculate_braking_aggressiveness lap5) (Fin 0) \<and>
   calculate_cornering_consistency lap5 = nanstd [Fin 95, Fin 90]"
  by (simp add: calculate_braking_aggressiveness_def run_braking_aggressiveness_def
      braking_body_def calculate_cornering_consistency_def run_cornering_consistency_def
      cornering_body_def lap5_def all_columns_def run_defs series_defs)

text \<open>Claim C4 as stated fails on that lap: the cornering metric is not the standard
  deviation of 100, 95 and 90, and the gear-shift frequency is not 75.\<close>

theorem lap5_counterexample:
  "calculate_cornering_consistency lap5 \<noteq> nanstd [Fin 100, Fin 95, Fin 90] \<and>
   calculate_gear_shift_frequency lap5 \<noteq> Fin 75"
proof -
  have "calculate_cornering_consistency lap5 = Fin (sqrt (25 / 2))"
    by (simp add: calculate_cornering_consistency_def run_cornering_consistency_def
        cornering_body_def lap5_def all_columns_def run_defs series_defs)
  moreover have "nanstd [Fin 100, Fin 95, Fin 90] = Fin 5"
    by (simp add: series_defs)
  ultimately show ?thesis
    by (simp add: sqrt_half_25 lap5_gear)
qed







text \<open>
  Claim C7: the throttle metric is the sample standard deviation (divisor N - 1) of the
  absolute first differences of the throttle, and 0.0 when there are fewer than two
  differences. The first half holds from two differences on
  (\<open>throttle_smoothness_value\<close>). The second does not: with a single difference the
  code returns NaN.
\<close>

theorem single_difference_nan:
  "abs_diffs (map Throttle (rows two_readings)) = [50] \<and>
   calculate_throttle_smoothness two_readings = NaN"
  by (simp add: calculate_throttle_smoothness_def run_throttle_smoothness_def
      throttle_body_def two_readings_def all_columns_def run_defs series_defs)

text \<open>
  Claim C8: every internal failure of a metric, division by zero included, ends in 0.0.
  Exceptions do (\<open>braking_missing\<close> and its siblings), but the column arithmetic raises
  none: two braking readings with one timestamp divide by a zero time step, and the
  braking metric is infinite; the single cornering instant of the same lap has no
  standard deviation, and the cornering metric is NaN.
\<close>

theorem zero_time_step_not_neutral:
  "calculate_braking_aggressiveness stalled_clock = PInf \<and>
   calculate_cornering_consistency stalled_clock = NaN"
  by (simp add: calculate_braking_aggressiveness_def run_braking_aggressiveness_def
      braking_body_def calculate_cornering_consistency_def run_cornering_consistency_def
      cornering_body_def stalled_clock_def all_columns_def run_defs series_defs)




text \<open>
  Claim C10: each of the four metric functions leaves the telemetry it is given
  unchanged: the frame handed back after the call, on the normal and on the exceptional
  path, is the frame that was passed in.
\<close>

theorem metrics_leave_telemetry_unchanged:
  "snd (run_braking_aggressiveness t) = t \<and>
   snd (run_throttle_smoothness t) = t \<and>
   snd (run_cornering_consistency t) = t \<and>
   snd (run_gear_shift_frequency t) = t"
  by (simp add: run_braking_aggressiveness_def braking_body_def
      run_throttle_smoothness_def throttle_body_def
      run_cornering_consistency_def cornering_body_def
      run_gear_shift_frequency_def gear_body_def run_defs Let_def)

end
